theory Spec2Isabelle
  imports Complex_Main "HOL-Library.Sublist"
begin

section \<open>Python values used by the recommender\<close>

text \<open>
  Strings are character lists. \<open>str.lower()\<close> is modelled on the ASCII letters, which is
  all the level, modality and keyword comparisons of the source depend on. Python floats are
  modelled as reals: the claims below are about clamping and ordering, not about rounding.
\<close>

definition lower_char :: "char \<Rightarrow> char" where
  "lower_char c =
     (case map_of (zip ''ABCDEFGHIJKLMNOPQRSTUVWXYZ'' ''abcdefghijklmnopqrstuvwxyz'') c of
        None \<Rightarrow> c
      | Some l \<Rightarrow> l)"

definition lower :: "string \<Rightarrow> string" where
  "lower s = map lower_char s"

text \<open>\<open>needle in haystack\<close> on strings: the needle occurs as a contiguous substring.\<close>

fun str_in :: "string \<Rightarrow> string \<Rightarrow> bool" where
  "str_in needle [] = (needle = [])"
| "str_in needle (h # hs) = (prefix needle (h # hs) \<or> str_in needle hs)"

text \<open>\<open>sep.join(parts)\<close>.\<close>

fun join :: "string \<Rightarrow> string list \<Rightarrow> string" where
  "join sep [] = []"
| "join sep [x] = x"
| "join sep (x # y # ys) = x @ sep @ join sep (y # ys)"

text \<open>\<open>d.get(key, default)\<close> on a key that may be absent.\<close>

definition dict_get :: "'a option \<Rightarrow> 'a \<Rightarrow> 'a" where
  "dict_get v d = (case v of None \<Rightarrow> d | Some x \<Rightarrow> x)"

text \<open>\<open>xs[:limit]\<close>: a negative limit drops that many elements from the end.\<close>

definition slice_to :: "int \<Rightarrow> 'a list \<Rightarrow> 'a list" where
  "slice_to limit xs =
     (if 0 \<le> limit then take (nat limit) xs else take (length xs - nat (- limit)) xs)"

text \<open>A raised exception: the name of its type and \<open>str(e)\<close>.\<close>

record exn =
  exn_type :: string
  exn_msg :: string

section \<open>Data model (course_analytics.py)\<close>

text \<open>
  A candidate course is a \<open>Dict[str, Any]\<close> whose keys may be missing. Each key is an
  optional field of the type the source reads it at; the prefix \<open>k_\<close> marks a dict key.
\<close>

record course_dict =
  k_course_id :: "string option"
  k_title :: "string option"
  k_provider :: "string option"
  k_level :: "string option"
  k_duration_hours :: "int option"
  k_modality :: "string option"
  k_tags :: "string list option"
  k_prerequisites :: "string list option"
  k_similarity_score :: "real option"
  k_course_rating :: "real option"
  k_enrollment_count :: "int option"
  k_certification_offered :: "bool option"

definition empty_course :: course_dict where
  "empty_course =
     \<lparr>k_course_id = None, k_title = None, k_provider = None, k_level = None,
      k_duration_hours = None, k_modality = None, k_tags = None, k_prerequisites = None,
      k_similarity_score = None, k_course_rating = None, k_enrollment_count = None,
      k_certification_offered = None\<rparr>"

text \<open>The user preferences dict; the prefix \<open>p_\<close> marks a dict key.\<close>

record preferences =
  p_skill_level :: "string option"
  p_modality :: "string option"
  p_provider_preference :: "string option"
  p_max_duration_hours :: "int option"

definition empty_preferences :: preferences where
  "empty_preferences =
     \<lparr>p_skill_level = None, p_modality = None, p_provider_preference = None,
      p_max_duration_hours = None\<rparr>"

record CourseRecommendation =
  course_id :: string
  title :: string
  provider :: string
  level :: string
  duration_hours :: int
  modality :: string
  tags :: "string list"
  recommendation_score :: real
  recommendation_reason :: string
  similarity_score :: real

record LearningPath =
  path_name :: string
  path_description :: string
  total_duration_hours :: int
  estimated_completion_months :: int
  skill_progression :: "string list"
  courses :: "CourseRecommendation list"

record SkillGapAnalysis =
  gap_severity :: string
  identified_gaps :: "string list"
  prerequisite_issues :: "string list"
  recommended_additional_courses :: "string list"

section \<open>The Scorer: analyze_course_recommendations\<close>

definition base_score :: "course_dict \<Rightarrow> real" where
  "base_score c = dict_get (k_similarity_score c) (1 / 2)"

definition quality_boost :: "course_dict \<Rightarrow> real" where
  "quality_boost c =
     (if dict_get (k_course_rating c) 0 \<ge> 4 then 1 / 10 else 0)
   + (if dict_get (k_enrollment_count c) 0 > 1000 then 1 / 20 else 0)
   + (if dict_get (k_certification_offered c) False then 1 / 20 else 0)"

text \<open>
  \<open>user_preferences.get('provider_preference')\<close> and \<open>max_duration\<close> are tested for
  truthiness: an empty string and the number 0 count as absent.
\<close>

definition provider_matches :: "preferences \<Rightarrow> course_dict \<Rightarrow> bool" where
  "provider_matches p c =
     (case p_provider_preference p of
        None \<Rightarrow> False
      | Some pp \<Rightarrow> pp \<noteq> [] \<and> str_in (lower pp) (lower (dict_get (k_provider c) [])))"

definition duration_matches :: "preferences \<Rightarrow> course_dict \<Rightarrow> bool" where
  "duration_matches p c =
     (case p_max_duration_hours p of
        None \<Rightarrow> False
      | Some m \<Rightarrow> m \<noteq> 0 \<and> dict_get (k_duration_hours c) 0 \<le> m)"

definition preference_boost :: "preferences \<Rightarrow> course_dict \<Rightarrow> real" where
  "preference_boost p c =
     (if p_skill_level p = Some (lower (dict_get (k_level c) [])) then 1 / 10 else 0)
   + (if p_modality p = Some (lower (dict_get (k_modality c) [])) then 1 / 20 else 0)
   + (if provider_matches p c then 1 / 20 else 0)
   + (if duration_matches p c then 1 / 20 else 0)"

definition final_score :: "preferences \<Rightarrow> course_dict \<Rightarrow> real" where
  "final_score p c = min 1 (base_score c + quality_boost c + preference_boost p c)"

definition reasons :: "preferences \<Rightarrow> course_dict \<Rightarrow> string list" where
  "reasons p c =
     (if base_score c > 8 / 10 then [''highly relevant to your query''] else [])
   @ (if dict_get (k_certification_offered c) False
      then [''offers professional certification''] else [])
   @ (if quality_boost c > 1 / 10 then [''highly rated by students''] else [])
   @ (if preference_boost p c > 1 / 20 then [''matches your preferences''] else [])"

definition reason :: "preferences \<Rightarrow> course_dict \<Rightarrow> string" where
  "reason p c =
     (if reasons p c = [] then ''Good match for your needs''
      else join '', '' (take 2 (reasons p c)))"

text \<open>The body of the loop over the candidates: one recommendation per course.\<close>

definition recommend :: "preferences \<Rightarrow> course_dict \<Rightarrow> CourseRecommendation" where
  "recommend p c =
     \<lparr>course_id = dict_get (k_course_id c) [],
      title = dict_get (k_title c) [],
      provider = dict_get (k_provider c) [],
      level = dict_get (k_level c) [],
      duration_hours = dict_get (k_duration_hours c) 0,
      modality = dict_get (k_modality c) [],
      tags = dict_get (k_tags c) [],
      recommendation_score = final_score p c,
      recommendation_reason = reason p c,
      similarity_score = base_score c\<rparr>"

text \<open>
  \<open>recommendations.sort(key=..., reverse=True)\<close> is a stable sort under the reversed
  comparison, which on numbers is the stable ascending sort by the negated key.
  \<open>user_preferences or {}\<close> turns a missing preferences argument into the empty dict.
\<close>

definition analyze_course_recommendations ::
  "course_dict list \<Rightarrow> preferences option \<Rightarrow> CourseRecommendation list" where
  "analyze_course_recommendations cs user_preferences =
     (if cs = [] then []
      else sort_key (\<lambda>r. - recommendation_score r)
             (map (recommend (dict_get user_preferences empty_preferences)) cs))"

section \<open>The Path Builder: generate_learning_path\<close>

text \<open>\<open>skill_order.get(name, 2)\<close> on the fixed table of the source.\<close>

definition skill_order :: "string \<Rightarrow> int" where
  "skill_order name =
     (case map_of [(''beginner'', 1), (''intermediate'', 2), (''advanced'', 3), (''expert'', 4)]
             name of
        None \<Rightarrow> 2
      | Some n \<Rightarrow> n)"

text \<open>The sort key of a candidate: a missing level reads as intermediate.\<close>

definition course_ordinal :: "course_dict \<Rightarrow> int" where
  "course_ordinal c = skill_order (dict_get (k_level c) ''intermediate'')"

definition sorted_courses :: "course_dict list \<Rightarrow> course_dict list" where
  "sorted_courses cs = sort_key course_ordinal cs"

text \<open>
  The reason of the course at position \<open>i\<close> of the loop; \<open>n\<close> is
  \<open>len(sorted_courses)\<close>, the length of the whole sorted list.
\<close>

definition position_reason :: "nat \<Rightarrow> nat \<Rightarrow> string" where
  "position_reason i n =
     (if i = 0 then ''Foundation course to establish core knowledge''
      else if int i < int n - 1 then ''Builds upon previous concepts and introduces new skills''
      else ''Advanced course to master the subject area'')"

definition path_recommendation :: "nat \<Rightarrow> nat \<times> course_dict \<Rightarrow> CourseRecommendation" where
  "path_recommendation n ic =
     \<lparr>course_id = dict_get (k_course_id (snd ic)) [],
      title = dict_get (k_title (snd ic)) [],
      provider = dict_get (k_provider (snd ic)) [],
      level = dict_get (k_level (snd ic)) [],
      duration_hours = dict_get (k_duration_hours (snd ic)) 0,
      modality = dict_get (k_modality (snd ic)) [],
      tags = dict_get (k_tags (snd ic)) [],
      recommendation_score = dict_get (k_similarity_score (snd ic)) (7 / 10),
      recommendation_reason = position_reason (fst ic) n,
      similarity_score = dict_get (k_similarity_score (snd ic)) (7 / 10)\<rparr>"

text \<open>
  \<open>list(set(...))\<close> is modelled by \<open>remdups\<close>: Python leaves the iteration order of a
  set open, and nothing below depends on it beyond the elements and their number.
\<close>

definition common_tags :: "course_dict list \<Rightarrow> string list" where
  "common_tags cs =
     (let all_tags = concat (map (\<lambda>c. dict_get (k_tags c) []) cs)
      in filter (\<lambda>tag. count_list all_tags tag > 1) (remdups all_tags))"

definition generate_learning_path :: "course_dict list \<Rightarrow> string \<Rightarrow> LearningPath" where
  "generate_learning_path cs target_skill_level =
     (if cs = [] then
        \<lparr>path_name = ''Empty Learning Path'', path_description = ''No courses provided'',
         total_duration_hours = 0, estimated_completion_months = 0,
         skill_progression = [], courses = []\<rparr>
      else
        let selected = take 6 (sorted_courses cs);
            total_duration = sum_list (map (\<lambda>c. dict_get (k_duration_hours c) 0) selected);
            skill_levels =
              remdups (map (\<lambda>c. dict_get (k_level c) ''intermediate'') (sorted_courses cs));
            progression = sort_key skill_order skill_levels;
            common = common_tags (sorted_courses cs)
        in \<lparr>path_name =
              (if common = [] then ''Professional Development Path''
               else join '' & '' (take 2 common) @ '' Learning Path''),
            path_description =
              ''Structured learning path progressing from ''
              @ (case progression of [] \<Rightarrow> ''beginner'' | s # _ \<Rightarrow> s)
              @ '' to '' @ target_skill_level @ '' level'',
            total_duration_hours = total_duration,
            estimated_completion_months = max 1 (total_duration div 20),
            skill_progression = progression,
            courses =
              map (path_recommendation (length (sorted_courses cs))) (enumerate 0 selected)\<rparr>)"

text \<open>
  \<open>built_from c r\<close>: the recommendation \<open>r\<close> carries the fields that the path loop
  copies from the candidate \<open>c\<close> (everything but the position-based reason).
\<close>

definition built_from :: "course_dict \<Rightarrow> CourseRecommendation \<Rightarrow> bool" where
  "built_from c r =
     (course_id r = dict_get (k_course_id c) []
      \<and> title r = dict_get (k_title c) []
      \<and> provider r = dict_get (k_provider c) []
      \<and> level r = dict_get (k_level c) []
      \<and> duration_hours r = dict_get (k_duration_hours c) 0
      \<and> modality r = dict_get (k_modality c) []
      \<and> tags r = dict_get (k_tags c) []
      \<and> recommendation_score r = dict_get (k_similarity_score c) (7 / 10)
      \<and> similarity_score r = dict_get (k_similarity_score c) (7 / 10))"

section \<open>The Gap Analyzer: perform_skill_gap_analysis\<close>

text \<open>
  The two lists the loops append to, \<open>identified_gaps\<close> and \<open>prerequisite_issues\<close>, are
  threaded through as a pair.
\<close>

type_synonym gap_state = "string list \<times> string list"

definition prereq_met :: "string \<Rightarrow> string list \<Rightarrow> string \<Rightarrow> bool" where
  "prereq_met user_background completed_courses prereq =
     (str_in (lower prereq) (lower user_background)
      \<or> list_ex (\<lambda>completed. str_in (lower prereq) (lower completed)) completed_courses)"

fun check_prerequisites :: "string \<Rightarrow> string list \<Rightarrow> string list \<Rightarrow> gap_state \<Rightarrow> gap_state" where
  "check_prerequisites bg cc [] st = st"
| "check_prerequisites bg cc (prereq # ps) st =
     check_prerequisites bg cc ps
       (if prereq_met bg cc prereq then st
        else (fst st @ [prereq], snd st @ [''Missing prerequisite: '' @ prereq]))"

definition check_level :: "string \<Rightarrow> course_dict \<Rightarrow> gap_state \<Rightarrow> gap_state" where
  "check_level bg c st =
     (if lower (dict_get (k_level c) ''intermediate'') = ''advanced''
         \<and> str_in ''beginner'' (lower bg)
      then (fst st @ [''Intermediate '' @ dict_get (k_title c) ''course'' @ '' knowledge''],
            snd st @ [''Course '' @ [CHR 0x27] @ dict_get (k_title c) [] @ [CHR 0x27]
                      @ '' may be too advanced''])
      else st)"

fun analyze_targets :: "string \<Rightarrow> string list \<Rightarrow> course_dict list \<Rightarrow> gap_state \<Rightarrow> gap_state" where
  "analyze_targets bg cc [] st = st"
| "analyze_targets bg cc (c # cs) st =
     analyze_targets bg cc cs
       (check_prerequisites bg cc (dict_get (k_prerequisites c) []) (check_level bg c st))"

definition classify_severity :: "nat \<Rightarrow> string" where
  "classify_severity gap_count =
     (if gap_count = 0 then ''Low'' else if gap_count \<le> 2 then ''Medium'' else ''High'')"

text \<open>
  The catalog store is an external collaborator. \<open>connect\<close> is the outcome of opening the
  connection (\<open>Some e\<close>: it raised \<open>e\<close>); \<open>find_intro\<close> is the outcome of the
  beginner-course query for a gap term: it raises, or yields the first matching title if any.
\<close>

record gap_store =
  connect :: "exn option"
  find_intro :: "string \<Rightarrow> exn + string option"

definition placeholder_course :: "string \<Rightarrow> string" where
  "placeholder_course gap =
     ''introductory_'' @ map (\<lambda>ch. if ch = CHR '' '' then CHR ''_'' else ch) (lower gap)
     @ ''_course''"

fun recommend_additional :: "gap_store \<Rightarrow> string list \<Rightarrow> exn + string list" where
  "recommend_additional db [] = Inr []"
| "recommend_additional db (gap # gaps) =
     (case find_intro db gap of
        Inl e \<Rightarrow> Inl e
      | Inr found \<Rightarrow>
          (case recommend_additional db gaps of
             Inl e \<Rightarrow> Inl e
           | Inr rest \<Rightarrow>
               Inr ((case found of Some t \<Rightarrow> t | None \<Rightarrow> placeholder_course gap) # rest)))"

definition perform_skill_gap_analysis ::
  "gap_store \<Rightarrow> course_dict list \<Rightarrow> string option \<Rightarrow> string list option
     \<Rightarrow> exn + SkillGapAnalysis" where
  "perform_skill_gap_analysis db target_courses user_background completed_courses =
     (let st = analyze_targets (dict_get user_background []) (dict_get completed_courses [])
                 target_courses ([], []);
          severity = classify_severity (length (fst st));
          additional =
            (if fst st = [] then Inr []
             else (case connect db of
                     Some e \<Rightarrow> Inl e
                   | None \<Rightarrow> recommend_additional db (take 3 (fst st))))
      in case additional of
           Inl e \<Rightarrow> Inl e
         | Inr recommended \<Rightarrow>
             Inr \<lparr>gap_severity = severity,
                  identified_gaps = remdups (fst st),
                  prerequisite_issues = snd st,
                  recommended_additional_courses = recommended\<rparr>)"

section \<open>The Vector Retriever (vector_search.py)\<close>

text \<open>
  A row of the table \<open>course_catalog\<close>. The list columns hold JSON text and may be NULL,
  as may the course text and the embedding; the other columns are read at their declared type.
\<close>

type_synonym blob = "nat list"

record catalog_row =
  row_course_id :: string
  row_title :: string
  row_provider :: string
  row_level :: string
  row_duration_hours :: int
  row_modality :: string
  row_tags :: "string option"
  row_prerequisites :: "string option"
  row_valid_regions :: "string option"
  row_course_content :: "string option"
  row_content_embedding :: "blob option"

text \<open>The pydantic model; the prefix \<open>sr_\<close> keeps its fields apart from the other models.\<close>

record CourseSearchResult =
  sr_course_id :: string
  sr_title :: string
  sr_provider :: string
  sr_level :: string
  sr_duration_hours :: int
  sr_modality :: string
  sr_tags :: "string list"
  sr_prerequisites :: "string list"
  sr_similarity_score :: real
  sr_content_preview :: string
  sr_valid_regions :: "string list"

text \<open>
  Everything the retriever calls outside this repository, each with its outcome (a raised
  exception or a value): the two environment variables, the construction of the embeddings
  client, \<open>os.makedirs\<close>, the embedding service, the catalog store (connecting and running
  the queries), numpy's \<open>frombuffer\<close> and the cosine formula, and \<open>json.loads\<close>.
\<close>

record services =
  watsonx_api_key :: "string option"
  watsonx_project_id :: "string option"
  new_embeddings :: "exn option"
  makedirs :: "exn option"
  embed_query :: "string \<Rightarrow> exn + real list"
  open_catalog :: "exn + catalog_row list"
  frombuffer :: "blob \<Rightarrow> exn + real list"
  cosine :: "real list \<Rightarrow> real list \<Rightarrow> exn + real"
  json_loads :: "string \<Rightarrow> exn + string list"

text \<open>An entry of the list \<open>similarities\<close>: the row, its decoded lists and its score.\<close>

record similarity_item =
  item_row :: catalog_row
  item_tags :: "string list"
  item_prerequisites :: "string list"
  item_valid_regions :: "string list"
  item_similarity :: real

text \<open>Sequencing of calls that may raise: an exception ends the sequence.\<close>

definition and_then :: "exn + 'a \<Rightarrow> ('a \<Rightarrow> exn + 'b) \<Rightarrow> exn + 'b" where
  "and_then r f = (case r of Inl e \<Rightarrow> Inl e | Inr x \<Rightarrow> f x)"

text \<open>\<open>json.loads(col) if col else []\<close>.\<close>

definition decode_list :: "services \<Rightarrow> string option \<Rightarrow> exn + string list" where
  "decode_list w col =
     (case col of
        None \<Rightarrow> Inr []
      | Some s \<Rightarrow> if s = [] then Inr [] else json_loads w s)"

definition score_row :: "services \<Rightarrow> real list \<Rightarrow> catalog_row \<Rightarrow> blob \<Rightarrow> exn + similarity_item" where
  "score_row w q row emb =
     and_then (frombuffer w emb) (\<lambda>stored.
     and_then (cosine w q stored) (\<lambda>similarity.
     and_then (decode_list w (row_tags row)) (\<lambda>ts.
     and_then (decode_list w (row_prerequisites row)) (\<lambda>ps.
     and_then (decode_list w (row_valid_regions row)) (\<lambda>rs.
       Inr \<lparr>item_row = row, item_tags = ts, item_prerequisites = ps,
            item_valid_regions = rs, item_similarity = similarity\<rparr>)))))"

text \<open>The loop over the fetched rows; \<open>if row[10]\<close> skips an empty embedding.\<close>

fun score_rows :: "services \<Rightarrow> real list \<Rightarrow> catalog_row list \<Rightarrow> exn + similarity_item list" where
  "score_rows w q [] = Inr []"
| "score_rows w q (row # rows) =
     (case row_content_embedding row of
        None \<Rightarrow> score_rows w q rows
      | Some emb \<Rightarrow>
          if emb = [] then score_rows w q rows
          else (case score_row w q row emb of
                  Inl e \<Rightarrow> Inl e
                | Inr item \<Rightarrow>
                    (case score_rows w q rows of
                       Inl e \<Rightarrow> Inl e
                     | Inr items \<Rightarrow> Inr (item # items))))"

definition to_result :: "similarity_item \<Rightarrow> CourseSearchResult" where
  "to_result item =
     \<lparr>sr_course_id = row_course_id (item_row item),
      sr_title = row_title (item_row item),
      sr_provider = row_provider (item_row item),
      sr_level = row_level (item_row item),
      sr_duration_hours = row_duration_hours (item_row item),
      sr_modality = row_modality (item_row item),
      sr_tags = item_tags item,
      sr_prerequisites = item_prerequisites item,
      sr_similarity_score = item_similarity item,
      sr_content_preview =
        (case row_course_content (item_row item) of
           None \<Rightarrow> take 200 (row_title (item_row item))
         | Some body \<Rightarrow>
             if body = [] then take 200 (row_title (item_row item)) else take 200 body),
      sr_valid_regions = item_valid_regions item\<rparr>"

text \<open>Sort by similarity, descending and stable, keep the first \<open>limit\<close>, build the results.\<close>

definition top_results :: "int \<Rightarrow> similarity_item list \<Rightarrow> CourseSearchResult list" where
  "top_results limit items =
     map to_result (slice_to limit (sort_key (\<lambda>item. - item_similarity item) items))"

text \<open>The body of the \<open>try\<close> block of \<open>search_courses_by_vector\<close>.\<close>

definition search_body :: "services \<Rightarrow> string \<Rightarrow> int \<Rightarrow> exn + CourseSearchResult list" where
  "search_body w query_text limit =
     and_then (embed_query w query_text) (\<lambda>query_embedding.
     and_then (open_catalog w) (\<lambda>rows.
     and_then (score_rows w query_embedding
                 (filter (\<lambda>row. row_content_embedding row \<noteq> None) rows)) (\<lambda>items.
       Inr (top_results limit items))))"

definition auth_keywords :: "string list" where
  "auth_keywords =
     [''api key'', ''authentication'', ''credentials'', ''unauthorized'', ''bxnim0415e'',
      ''invalidcredentials'']"

definition is_auth_error :: "exn \<Rightarrow> bool" where
  "is_auth_error e =
     (list_ex (\<lambda>auth_keyword. str_in auth_keyword (lower (exn_msg e))) auth_keywords
      \<or> str_in ''credential'' (lower (exn_type e))
      \<or> str_in ''auth'' (lower (exn_type e)))"

definition sample_result :: "string \<Rightarrow> CourseSearchResult" where
  "sample_result query_text =
     \<lparr>sr_course_id = ''sample_001'',
      sr_title = ''Sample Course for: '' @ query_text,
      sr_provider = ''Sample Provider'',
      sr_level = ''intermediate'',
      sr_duration_hours = 20,
      sr_modality = ''online'',
      sr_tags = [''sample'', ''development''],
      sr_prerequisites = [''basic knowledge''],
      sr_similarity_score = 85 / 100,
      sr_content_preview = ''This is a sample course matching your query: '' @ query_text,
      sr_valid_regions = [''US'', ''EU'']\<rparr>"

definition value_error :: "string \<Rightarrow> exn" where
  "value_error msg = \<lparr>exn_type = ''ValueError'', exn_msg = msg\<rparr>"

text \<open>
  \<open>limit\<close> is \<open>None\<close> when the caller leaves it out; the signature's default is then used.
  The checks and the two calls before the \<open>try\<close> block raise to the caller.
\<close>

definition search_courses_by_vector ::
  "services \<Rightarrow> string \<Rightarrow> int option \<Rightarrow> exn + CourseSearchResult list" where
  "search_courses_by_vector w query_text limit =
     (if query_text = [] then
        Inl (value_error ''query_text is required and must be a string'')
      else if dict_get (watsonx_api_key w) [] = [] then
        Inl (value_error ''WATSONX_API_KEY environment variable is required'')
      else if dict_get (watsonx_project_id w) [] = [] then
        Inl (value_error ''WATSONX_PROJECT_ID environment variable is required'')
      else (case new_embeddings w of
              Some e \<Rightarrow> Inl e
            | None \<Rightarrow>
                (case makedirs w of
                   Some e \<Rightarrow> Inl e
                 | None \<Rightarrow>
                     (case search_body w query_text (dict_get limit 3) of
                        Inr results \<Rightarrow> Inr results
                      | Inl e \<Rightarrow>
                          if is_auth_error e then Inl e
                          else Inr [sample_result query_text]))))"

text \<open>
  \<open>get_similar_courses\<close>. The seed lookup, the conversion of the seed embedding and the
  second query run before the \<open>try\<close> block. When the seed lookup finds no row the source
  executes \<open>return results\<close> before \<open>results\<close> is assigned, which raises.
\<close>

definition unbound_local_error :: exn where
  "unbound_local_error =
     \<lparr>exn_type = ''UnboundLocalError'',
      exn_msg = ''cannot access local variable '' @ [CHR 0x27] @ ''results'' @ [CHR 0x27]
                @ '' where it is not associated with a value''\<rparr>"

definition similar_sample :: "string \<Rightarrow> nat \<Rightarrow> CourseSearchResult" where
  "similar_sample seed i =
     \<lparr>sr_course_id = ''similar_'' @ [char_of (48 + i)],
      sr_title = ''Similar Course '' @ [char_of (48 + i)] @ '' to '' @ seed,
      sr_provider = ''Sample Provider'',
      sr_level = ''intermediate'',
      sr_duration_hours = 15,
      sr_modality = ''online'',
      sr_tags = [''similar'', ''related''],
      sr_prerequisites = [],
      sr_similarity_score = 8 / 10 - real i * (1 / 10),
      sr_content_preview = ''Course similar to '' @ seed,
      sr_valid_regions = [''US'']\<rparr>"

definition get_similar_courses ::
  "services \<Rightarrow> string \<Rightarrow> int option \<Rightarrow> exn + CourseSearchResult list" where
  "get_similar_courses w seed limit =
     and_then (open_catalog w) (\<lambda>rows.
       case find (\<lambda>row. row_course_id row = seed \<and> row_content_embedding row \<noteq> None) rows of
         None \<Rightarrow> Inl unbound_local_error
       | Some ref \<Rightarrow>
           and_then (frombuffer w (dict_get (row_content_embedding ref) [])) (\<lambda>reference_embedding.
             case score_rows w reference_embedding
                    (filter (\<lambda>row. row_content_embedding row \<noteq> None
                                    \<and> row_course_id row \<noteq> seed) rows) of
               Inr items \<Rightarrow> Inr (top_results (dict_get limit 5) items)
             | Inl e \<Rightarrow>
                 Inr (map (similar_sample seed)
                        [1 ..< nat (min (dict_get limit 5 + 1) 4)])))"

section \<open>A small catalog for concrete runs\<close>

text \<open>
  A row with the given id and embedding, and services that all succeed over the given rows:
  both credentials are set, every embedding is \<open>[1]\<close> and every similarity is 1.
\<close>

definition example_row :: "string \<Rightarrow> blob option \<Rightarrow> catalog_row" where
  "example_row cid emb =
     \<lparr>row_course_id = cid, row_title = ''Course '' @ cid, row_provider = ''Provider'',
      row_level = ''beginner'', row_duration_hours = 10, row_modality = ''online'',
      row_tags = None, row_prerequisites = None, row_valid_regions = None,
      row_course_content = None, row_content_embedding = emb\<rparr>"

definition example_services :: "catalog_row list \<Rightarrow> services" where
  "example_services rows =
     \<lparr>watsonx_api_key = Some ''key'', watsonx_project_id = Some ''project'',
      new_embeddings = None, makedirs = None,
      embed_query = (\<lambda>text. Inr [1]),
      open_catalog = Inr rows,
      frombuffer = (\<lambda>bytes. Inr [1]),
      cosine = (\<lambda>u v. Inr 1),
      json_loads = (\<lambda>text. Inr [])\<rparr>"

section \<open>Properties of the Scorer\<close>

text \<open>The upper clamp: no recommendation scores above 1.\<close>

lemma recommendation_score_le_1:
  "r \<in> set (analyze_course_recommendations cs up) \<Longrightarrow> recommendation_score r \<le> 1"
  by (auto simp: analyze_course_recommendations_def recommend_def final_score_def split: if_splits)

text \<open>
  Claim C1 (score bound). The Scorer clamps from above only: a candidate whose
  \<open>similarity_score\<close> is -0.5, scored without preferences, gets the
  \<open>recommendation_score\<close> -0.5, which is below 0.
\<close>

theorem scorer_negative_similarity_below_zero:
  "map recommendation_score
     (analyze_course_recommendations [empty_course\<lparr>k_similarity_score := Some (- 1 / 2)\<rparr>] None)
   = [- 1 / 2]"
  by (simp add: analyze_course_recommendations_def recommend_def final_score_def base_score_def
      quality_boost_def preference_boost_def provider_matches_def duration_matches_def
      dict_get_def empty_course_def empty_preferences_def lower_def)

text \<open>
  Claim C5 (ranking). For every candidate list and every preferences argument, the
  recommendations returned by the Scorer are in non-increasing order of
  \<open>recommendation_score\<close>.
\<close>

theorem scorer_output_sorted:
  "sorted_wrt (\<lambda>a b. recommendation_score a \<ge> recommendation_score b)
     (analyze_course_recommendations cs user_preferences)"
proof -
  have "sorted (map (\<lambda>r. - recommendation_score r)
                  (analyze_course_recommendations cs user_preferences))"
    by (simp add: analyze_course_recommendations_def)
  then show ?thesis by (simp add: sorted_map)
qed

text \<open>
  Claim C10 (missing similarity). A candidate without a \<open>similarity_score\<close> key is
  scored, not rejected: its recommendation is in the output (which has one entry per
  candidate), reports 0.5 as its retained \<open>similarity_score\<close>, and its
  \<open>recommendation_score\<close> is the clamped sum of the base 0.5 and the two boosts.
\<close>

theorem scorer_missing_similarity_defaults:
  assumes "c \<in> set cs" and "k_similarity_score c = None"
  shows "recommend (dict_get up empty_preferences) c \<in> set (analyze_course_recommendations cs up)
       \<and> similarity_score (recommend (dict_get up empty_preferences) c) = 1 / 2
       \<and> recommendation_score (recommend (dict_get up empty_preferences) c)
           = min 1 (1 / 2 + quality_boost c + preference_boost (dict_get up empty_preferences) c)
       \<and> length (analyze_course_recommendations cs up) = length cs"
proof -
  from assms(1) have ne: "cs \<noteq> []" by auto
  have sim: "base_score c = 1 / 2"
    using assms(2) by (simp add: base_score_def dict_get_def)
  show ?thesis
    using assms(1) ne sim
    by (simp add: analyze_course_recommendations_def recommend_def final_score_def)
qed

text \<open>
  Claim C10 at a concrete input: the empty candidate dict, scored without preferences.
\<close>

theorem scorer_missing_similarity_defaults_witness:
  "empty_course \<in> set [empty_course] \<and> k_similarity_score empty_course = None
   \<and> recommend (dict_get None empty_preferences) empty_course
        \<in> set (analyze_course_recommendations [empty_course] None)
   \<and> similarity_score (recommend (dict_get None empty_preferences) empty_course) = 1 / 2
   \<and> recommendation_score (recommend (dict_get None empty_preferences) empty_course) = 1 / 2
   \<and> length (analyze_course_recommendations [empty_course] None) = 1"
proof -
  have h1: "empty_course \<in> set [empty_course]" by simp
  have h2: "k_similarity_score empty_course = None" by (simp add: empty_course_def)
  have q: "quality_boost empty_course = 0"
    by (simp add: quality_boost_def empty_course_def dict_get_def)
  have p: "preference_boost (dict_get None empty_preferences) empty_course = 0"
    by (simp add: preference_boost_def provider_matches_def duration_matches_def
        empty_course_def empty_preferences_def dict_get_def lower_def)
  show ?thesis
    using scorer_missing_similarity_defaults [OF h1 h2, of None] h1 h2 q p by simp
qed

text \<open>
  Claim C9 as stated fails: the preference \<open>Beginner\<close> and the level
  \<open>beginner\<close> are equal up to letter case, yet the candidate scores 0.5 (no boost);
  with the preference \<open>beginner\<close> it scores 0.6.
\<close>

theorem skill_boost_capitalised_preference_counterexample:
  "lower ''Beginner'' = lower ''beginner''
   \<and> map recommendation_score
       (analyze_course_recommendations [empty_course\<lparr>k_level := Some ''beginner''\<rparr>]
          (Some (empty_preferences\<lparr>p_skill_level := Some ''Beginner''\<rparr>))) = [1 / 2]
   \<and> map recommendation_score
       (analyze_course_recommendations [empty_course\<lparr>k_level := Some ''beginner''\<rparr>]
          (Some (empty_preferences\<lparr>p_skill_level := Some ''beginner''\<rparr>))) = [6 / 10]"
  by (simp add: analyze_course_recommendations_def recommend_def final_score_def base_score_def
      quality_boost_def preference_boost_def provider_matches_def duration_matches_def
      dict_get_def empty_course_def empty_preferences_def lower_def lower_char_def)

text \<open>
  Claim C9, amended. The skill-level boost of +0.10 is applied exactly when the preference
  value, compared as given, equals the lower-cased candidate level: the candidate level is
  matched in every casing, the preference value is not lower-cased.
\<close>

theorem skill_boost_matches_lowercased_level:
  "preference_boost (p\<lparr>p_skill_level := Some s\<rparr>) (c\<lparr>k_level := Some l\<rparr>)
   = preference_boost (p\<lparr>p_skill_level := None\<rparr>) (c\<lparr>k_level := Some l\<rparr>)
     + (if lower l = s then 1 / 10 else 0)"
  by (auto simp: preference_boost_def provider_matches_def duration_matches_def dict_get_def)

section \<open>Properties of the Gap Analyzer\<close>

lemma check_prerequisites_length:
  "length (fst st) = length (snd st) \<Longrightarrow>
   length (fst (check_prerequisites bg cc ps st)) = length (snd (check_prerequisites bg cc ps st))"
  by (induction ps arbitrary: st) auto

lemma check_level_length:
  "length (fst st) = length (snd st) \<Longrightarrow>
   length (fst (check_level bg c st)) = length (snd (check_level bg c st))"
  by (simp add: check_level_def)

lemma analyze_targets_length:
  "length (fst st) = length (snd st) \<Longrightarrow>
   length (fst (analyze_targets bg cc cs st)) = length (snd (analyze_targets bg cc cs st))"
  by (induction cs arbitrary: st) (auto simp: check_prerequisites_length check_level_length)

lemma classify_severity_cases:
  "(classify_severity n = ''Low'') = (n = 0)"
  "(classify_severity n = ''Medium'') = (n = 1 \<or> n = 2)"
  "(classify_severity n = ''High'') = (3 \<le> n)"
  by (auto simp: classify_severity_def)

text \<open>
  Claim C2, amended. Whenever the Gap Analyzer returns a report, its severity is a function
  of the number of gap entries recorded before deduplication, which is the length of the
  returned \<open>prerequisite_issues\<close>: Low iff that number is 0, Medium iff it is 1 or 2,
  High iff it is 3 or more. The returned \<open>identified_gaps\<close> is deduplicated after the
  classification, so it has no duplicates and is at most that long.
\<close>

theorem gap_severity_counts_recorded_gaps:
  assumes "perform_skill_gap_analysis db cs bg cc = Inr r"
  shows "(gap_severity r = ''Low'') = (length (prerequisite_issues r) = 0)
       \<and> (gap_severity r = ''Medium'')
           = (length (prerequisite_issues r) = 1 \<or> length (prerequisite_issues r) = 2)
       \<and> (gap_severity r = ''High'') = (3 \<le> length (prerequisite_issues r))
       \<and> length (identified_gaps r) \<le> length (prerequisite_issues r)
       \<and> distinct (identified_gaps r)"
proof -
  define st where "st = analyze_targets (dict_get bg []) (dict_get cc []) cs ([], [])"
  have len: "length (fst st) = length (snd st)"
    unfolding st_def by (rule analyze_targets_length) simp
  from assms have sev: "gap_severity r = classify_severity (length (fst st))"
    and gaps: "identified_gaps r = remdups (fst st)"
    and issues: "prerequisite_issues r = snd st"
    by (auto simp: perform_skill_gap_analysis_def Let_def st_def
        split: sum.splits if_splits option.splits)
  have sev': "gap_severity r = classify_severity (length (prerequisite_issues r))"
    using sev issues len by simp
  have le: "length (identified_gaps r) \<le> length (prerequisite_issues r)"
    using gaps issues len by (metis length_remdups_leq)
  show ?thesis
    using le gaps by (simp add: sev' classify_severity_cases)
qed

text \<open>
  Claim C2 at a concrete input: an advanced course with the prerequisite \<open>calculus\<close> for
  a user whose background is \<open>I am a beginner\<close>: two recorded gaps, severity Medium.
\<close>

theorem gap_severity_counts_recorded_gaps_witness:
  "perform_skill_gap_analysis \<lparr>connect = None, find_intro = (\<lambda>gap. Inr None)\<rparr>
     [empty_course\<lparr>k_level := Some ''advanced'', k_prerequisites := Some [''calculus'']\<rparr>]
     (Some ''I am a beginner'') (Some [])
   = Inr \<lparr>gap_severity = ''Medium'',
          identified_gaps = [''Intermediate course knowledge'', ''calculus''],
          prerequisite_issues =
            [''Course '' @ [CHR 0x27, CHR 0x27] @ '' may be too advanced'',
             ''Missing prerequisite: calculus''],
          recommended_additional_courses =
            [''introductory_intermediate_course_knowledge_course'',
             ''introductory_calculus_course'']\<rparr>
   \<and> (''Medium'' = ''Medium'') = (length [''a'', ''b''] = 1 \<or> length [''a'', ''b''] = (2::nat))"
proof -
  have run: "perform_skill_gap_analysis \<lparr>connect = None, find_intro = (\<lambda>gap. Inr None)\<rparr>
     [empty_course\<lparr>k_level := Some ''advanced'', k_prerequisites := Some [''calculus'']\<rparr>]
     (Some ''I am a beginner'') (Some [])
   = Inr \<lparr>gap_severity = ''Medium'',
          identified_gaps = [''Intermediate course knowledge'', ''calculus''],
          prerequisite_issues =
            [''Course '' @ [CHR 0x27, CHR 0x27] @ '' may be too advanced'',
             ''Missing prerequisite: calculus''],
          recommended_additional_courses =
            [''introductory_intermediate_course_knowledge_course'',
             ''introductory_calculus_course'']\<rparr>"
    by (simp add: perform_skill_gap_analysis_def Let_def empty_course_def dict_get_def
        prereq_met_def check_level_def lower_def lower_char_def classify_severity_def
        placeholder_course_def)
  from gap_severity_counts_recorded_gaps [OF run] run show ?thesis by simp
qed

text \<open>
  Claim C2 as stated fails: three target courses that each miss the prerequisite
  \<open>calculus\<close> give a report whose deduplicated \<open>identified_gaps\<close> has length 1,
  for which the claim says Medium, and whose severity is High.
\<close>

theorem gap_severity_dedup_counterexample:
  "perform_skill_gap_analysis \<lparr>connect = None, find_intro = (\<lambda>gap. Inr None)\<rparr>
     (replicate 3 (empty_course\<lparr>k_prerequisites := Some [''calculus'']\<rparr>)) None None
   = Inr \<lparr>gap_severity = ''High'', identified_gaps = [''calculus''],
          prerequisite_issues = replicate 3 ''Missing prerequisite: calculus'',
          recommended_additional_courses = replicate 3 ''introductory_calculus_course''\<rparr>
   \<and> length [''calculus''] = 1"
  by (simp add: perform_skill_gap_analysis_def Let_def numeral_3_eq_3 empty_course_def dict_get_def
      prereq_met_def check_level_def lower_def lower_char_def classify_severity_def
      placeholder_course_def)

section \<open>Properties of the Path Builder\<close>

lemma skill_order_level_default:
  "skill_order (dict_get l []) = skill_order (dict_get l ''intermediate'')"
  by (cases l) (simp_all add: dict_get_def skill_order_def)

lemma path_recommendation_ordinal:
  "skill_order (level (path_recommendation n ic)) = course_ordinal (snd ic)"
  by (simp add: path_recommendation_def course_ordinal_def skill_order_level_default)

lemma path_recommendation_built_from:
  "built_from c (path_recommendation n (i, c))"
  by (simp add: built_from_def path_recommendation_def)

lemma courses_of_path:
  "cs \<noteq> [] \<Longrightarrow>
   courses (generate_learning_path cs t)
   = map (path_recommendation (length cs)) (enumerate 0 (take 6 (sorted_courses cs)))"
  by (simp add: generate_learning_path_def Let_def sorted_courses_def)

lemma ordinals_of_path_entries:
  "map (\<lambda>r. skill_order (level r)) (map (path_recommendation n) (enumerate i xs))
   = map course_ordinal xs"
  by (induction xs arbitrary: i) (simp_all add: path_recommendation_ordinal)

lemma filter_path_entries:
  "list_all2 built_from (filter (\<lambda>c. course_ordinal c = k) xs)
     (filter (\<lambda>r. skill_order (level r) = k) (map (path_recommendation n) (enumerate i xs)))"
  by (induction xs arbitrary: i)
     (simp_all add: path_recommendation_ordinal path_recommendation_built_from)

lemma sorted_selected:
  "sorted (map course_ordinal (take m (sorted_courses cs)))"
proof -
  have "sorted (take m (map course_ordinal (sort_key course_ordinal cs)))"
    by (rule sorted_wrt_take) simp
  then show ?thesis by (simp add: take_map sorted_courses_def)
qed

lemma selected_stable:
  "\<exists>n. filter (\<lambda>c. course_ordinal c = k) (take m (sorted_courses cs))
       = take n (filter (\<lambda>c. course_ordinal c = k) cs)"
proof -
  have "prefix (filter (\<lambda>c. course_ordinal c = k) (take m (sorted_courses cs)))
          (filter (\<lambda>c. course_ordinal c = k) (sorted_courses cs))"
    by (rule filter_mono_prefix) (rule take_is_prefix)
  then have "prefix (filter (\<lambda>c. course_ordinal c = k) (take m (sorted_courses cs)))
          (filter (\<lambda>c. course_ordinal c = k) cs)"
    by (simp add: sorted_courses_def sort_key_stable)
  then obtain zs where "filter (\<lambda>c. course_ordinal c = k) cs
      = filter (\<lambda>c. course_ordinal c = k) (take m (sorted_courses cs)) @ zs"
    by (auto simp: prefix_def)
  then have "take (length (filter (\<lambda>c. course_ordinal c = k) (take m (sorted_courses cs))))
               (filter (\<lambda>c. course_ordinal c = k) cs)
             = filter (\<lambda>c. course_ordinal c = k) (take m (sorted_courses cs))"
    by simp
  then show ?thesis by metis
qed

text \<open>
  Claim C4 (path size and order). For a non-empty candidate list the path has at most 6
  courses, sorted by non-decreasing skill ordinal; for every ordinal \<open>k\<close> the path's
  courses of that ordinal are built, in order, from the first candidates of that ordinal in
  input order (ties keep input order); the ordinals are beginner 1, intermediate 2,
  advanced 3, expert 4, and a missing or unknown level counts as 2.
\<close>

theorem learning_path_bounded_and_sorted:
  assumes "cs \<noteq> []"
  shows "length (courses (generate_learning_path cs t)) \<le> 6
       \<and> sorted (map (\<lambda>r. skill_order (level r)) (courses (generate_learning_path cs t)))
       \<and> (\<exists>n. list_all2 built_from
                 (take n (filter (\<lambda>c. course_ordinal c = k) cs))
                 (filter (\<lambda>r. skill_order (level r) = k)
                    (courses (generate_learning_path cs t))))
       \<and> skill_order ''beginner'' = 1 \<and> skill_order ''intermediate'' = 2
       \<and> skill_order ''advanced'' = 3 \<and> skill_order ''expert'' = 4
       \<and> course_ordinal (c\<lparr>k_level := None\<rparr>) = 2
       \<and> course_ordinal (c\<lparr>k_level := Some l\<rparr>)
           = (if l = ''beginner'' then 1 else if l = ''advanced'' then 3
              else if l = ''expert'' then 4 else 2)"
proof -
  note cp = courses_of_path [OF assms, of t]
  have len: "length (courses (generate_learning_path cs t)) \<le> 6"
    by (simp add: cp)
  have srt: "sorted (map (\<lambda>r. skill_order (level r)) (courses (generate_learning_path cs t)))"
    unfolding cp ordinals_of_path_entries by (rule sorted_selected)
  obtain n where n: "filter (\<lambda>c. course_ordinal c = k) (take 6 (sorted_courses cs))
       = take n (filter (\<lambda>c. course_ordinal c = k) cs)"
    using selected_stable by blast
  have stab: "list_all2 built_from (take n (filter (\<lambda>c. course_ordinal c = k) cs))
                 (filter (\<lambda>r. skill_order (level r) = k)
                    (courses (generate_learning_path cs t)))"
    unfolding cp n [symmetric] by (rule filter_path_entries)
  have tab: "skill_order ''beginner'' = 1 \<and> skill_order ''intermediate'' = 2
       \<and> skill_order ''advanced'' = 3 \<and> skill_order ''expert'' = 4"
    by (simp add: skill_order_def)
  have unk: "course_ordinal (c\<lparr>k_level := None\<rparr>) = 2
       \<and> course_ordinal (c\<lparr>k_level := Some l\<rparr>)
           = (if l = ''beginner'' then 1 else if l = ''advanced'' then 3
              else if l = ''expert'' then 4 else 2)"
    by (simp add: course_ordinal_def skill_order_def dict_get_def)
  from len srt stab tab unk show ?thesis by blast
qed

lemma last_enumerate:
  "xs \<noteq> [] \<Longrightarrow> last (enumerate i xs) = (i + length xs - 1, last xs)"
proof (induction xs arbitrary: i)
  case Nil
  then show ?case by simp
next
  case (Cons x xs)
  show ?case
  proof (cases "xs = []")
    case True
    then show ?thesis by simp
  next
    case False
    then have "enumerate (Suc i) xs \<noteq> []"
      by (metis length_0_conv length_enumerate)
    with False Cons.IH [OF False, of "Suc i"] show ?thesis by simp
  qed
qed

text \<open>With two to six candidates the last course does carry the advanced reason.\<close>

lemma last_reason_up_to_six:
  assumes "2 \<le> length cs" and "length cs \<le> 6"
  shows "recommendation_reason (last (courses (generate_learning_path cs t)))
         = ''Advanced course to master the subject area''"
proof -
  from assms have ne: "cs \<noteq> []" by auto
  have sel: "take 6 (sorted_courses cs) = sorted_courses cs"
    using assms by (simp add: sorted_courses_def)
  have ne': "sorted_courses cs \<noteq> []"
    using ne by (metis length_0_conv length_sort sorted_courses_def)
  have "last (courses (generate_learning_path cs t))
        = path_recommendation (length cs) (last (enumerate 0 (sorted_courses cs)))"
  proof -
    have "enumerate 0 (sorted_courses cs) \<noteq> []"
      using ne' by (metis length_0_conv length_enumerate)
    then show ?thesis by (simp add: courses_of_path [OF ne] sel last_map)
  qed
  also have "last (enumerate 0 (sorted_courses cs)) = (length cs - 1, last (sorted_courses cs))"
    using last_enumerate [OF ne', of 0] by (simp add: sorted_courses_def)
  finally show ?thesis
    using assms by (simp add: path_recommendation_def position_reason_def)
qed

text \<open>
  Claim C8 (reason of the last course). With seven candidates the path keeps six courses,
  and the last of them carries the builds-upon reason, not the advanced reason: the loop
  compares the position with the length of the whole sorted list, not of the six selected.
\<close>

theorem learning_path_last_reason_of_seven:
  "length (courses (generate_learning_path (replicate 7 empty_course) ''advanced'')) = 6
   \<and> recommendation_reason
       (last (courses (generate_learning_path (replicate 7 empty_course) ''advanced'')))
     = ''Builds upon previous concepts and introduces new skills''"
  by (simp add: generate_learning_path_def Let_def sorted_courses_def numeral_eq_Suc
      enumerate_eq_zip path_recommendation_def position_reason_def upt_rec)

text \<open>
  Claim C4 at a concrete input: an advanced course followed by a beginner course.
\<close>

theorem learning_path_bounded_and_sorted_witness:
  "[empty_course\<lparr>k_level := Some ''advanced''\<rparr>, empty_course\<lparr>k_level := Some ''beginner''\<rparr>] \<noteq> []
   \<and> map level (courses (generate_learning_path
         [empty_course\<lparr>k_level := Some ''advanced''\<rparr>, empty_course\<lparr>k_level := Some ''beginner''\<rparr>]
         ''advanced'')) = [''beginner'', ''advanced'']
   \<and> sorted (map (\<lambda>r. skill_order (level r)) (courses (generate_learning_path
         [empty_course\<lparr>k_level := Some ''advanced''\<rparr>, empty_course\<lparr>k_level := Some ''beginner''\<rparr>]
         ''advanced'')))"
proof -
  have ne: "[empty_course\<lparr>k_level := Some ''advanced''\<rparr>,
             empty_course\<lparr>k_level := Some ''beginner''\<rparr>] \<noteq> []"
    by simp
  have lv: "map level (courses (generate_learning_path
         [empty_course\<lparr>k_level := Some ''advanced''\<rparr>, empty_course\<lparr>k_level := Some ''beginner''\<rparr>]
         ''advanced'')) = [''beginner'', ''advanced'']"
    by (simp add: generate_learning_path_def Let_def sorted_courses_def course_ordinal_def
        skill_order_def dict_get_def empty_course_def path_recommendation_def)
  from learning_path_bounded_and_sorted [OF ne, of "''advanced''"] ne lv show ?thesis
    by blast
qed

section \<open>Properties of the Vector Retriever\<close>

text \<open>
  The guarded block fails exactly when one of its steps does: the query embedding, the
  access to the store, or the scoring of a fetched row.
\<close>

lemma search_body_fails:
  "(search_body w q l = Inl e)
   = (embed_query w q = Inl e
      \<or> (\<exists>qe. embed_query w q = Inr qe
           \<and> (open_catalog w = Inl e
               \<or> (\<exists>rows. open_catalog w = Inr rows
                    \<and> score_rows w qe (filter (\<lambda>row. row_content_embedding row \<noteq> None) rows)
                        = Inl e))))"
  by (auto simp: search_body_def and_then_def split: sum.splits)

text \<open>
  Claim C3, amended. For a non-empty query, every failure after input validation is
  accounted for. The steps before the guarded block raise to the caller whatever their
  kind: an unset \<open>WATSONX_API_KEY\<close> or \<open>WATSONX_PROJECT_ID\<close> raises its
  \<open>ValueError\<close>, a failing construction of the embeddings client raises its exception,
  and so does a failing \<open>os.makedirs\<close>. When these succeed and a step inside the
  guarded block fails with \<open>e\<close>, then \<open>e\<close> is re-raised if and only if it is an
  authentication-kind error; every other failure returns exactly one placeholder result.
\<close>

theorem retrieve_failure_handling:
  assumes "query_text \<noteq> []"
  shows "(dict_get (watsonx_api_key w) [] = []
          \<longrightarrow> search_courses_by_vector w query_text limit
              = Inl (value_error ''WATSONX_API_KEY environment variable is required''))
       \<and> (dict_get (watsonx_api_key w) [] \<noteq> [] \<and> dict_get (watsonx_project_id w) [] = []
          \<longrightarrow> search_courses_by_vector w query_text limit
              = Inl (value_error ''WATSONX_PROJECT_ID environment variable is required''))
       \<and> (dict_get (watsonx_api_key w) [] \<noteq> [] \<and> dict_get (watsonx_project_id w) [] \<noteq> []
          \<and> new_embeddings w = Some e
          \<longrightarrow> search_courses_by_vector w query_text limit = Inl e)
       \<and> (dict_get (watsonx_api_key w) [] \<noteq> [] \<and> dict_get (watsonx_project_id w) [] \<noteq> []
          \<and> new_embeddings w = None \<and> makedirs w = Some e
          \<longrightarrow> search_courses_by_vector w query_text limit = Inl e)
       \<and> (dict_get (watsonx_api_key w) [] \<noteq> [] \<and> dict_get (watsonx_project_id w) [] \<noteq> []
          \<and> new_embeddings w = None \<and> makedirs w = None
          \<and> search_body w query_text (dict_get limit 3) = Inl e
          \<longrightarrow> search_courses_by_vector w query_text limit
                = (if is_auth_error e then Inl e else Inr [sample_result query_text])
              \<and> (search_courses_by_vector w query_text limit = Inl e) = is_auth_error e
              \<and> (search_courses_by_vector w query_text limit = Inr [sample_result query_text])
                  = (\<not> is_auth_error e))"
  using assms by (simp add: search_courses_by_vector_def)

lemma length_slice_to: "0 \<le> limit \<Longrightarrow> length (slice_to limit xs) \<le> nat limit"
  by (simp add: slice_to_def)

lemma length_top_results: "0 \<le> limit \<Longrightarrow> length (top_results limit items) \<le> nat limit"
  by (simp add: top_results_def length_slice_to)

lemma search_body_length:
  "0 \<le> l \<Longrightarrow> search_body w q l = Inr rs \<Longrightarrow> length rs \<le> nat l"
  by (auto simp: search_body_def and_then_def length_top_results split: sum.splits)

text \<open>
  Claim C7, amended. Calling the retriever without \<open>limit\<close> behaves as
  \<open>limit = 3\<close>: the outcome is that of the explicit call, and a returned list has at
  most 3 results.
\<close>

theorem retrieve_default_limit_is_three:
  "search_courses_by_vector w query_text None = search_courses_by_vector w query_text (Some 3)
   \<and> (\<forall>results. search_courses_by_vector w query_text None = Inr results
          \<longrightarrow> length results \<le> 3)"
proof -
  have eq: "search_courses_by_vector w query_text None
            = search_courses_by_vector w query_text (Some 3)"
  proof -
    have "dict_get (None :: int option) 3 = dict_get (Some 3) 3"
      by (simp add: dict_get_def)
    then show ?thesis by (simp only: search_courses_by_vector_def)
  qed
  have "length results \<le> 3" if "search_courses_by_vector w query_text None = Inr results"
    for results
  proof (cases "search_body w query_text (dict_get None 3)")
    case (Inl e)
    with that show ?thesis
      by (auto simp: search_courses_by_vector_def split: if_splits option.splits)
  next
    case (Inr rs)
    then have "search_body w query_text 3 = Inr rs" by (simp add: dict_get_def)
    then have "length rs \<le> nat 3" by (intro search_body_length) auto
    with Inr that show ?thesis
      by (auto simp: search_courses_by_vector_def split: if_splits option.splits)
  qed
  with eq show ?thesis by blast
qed

text \<open>
  Claim C3 at concrete inputs, one for each case: the API key unset, the project id unset,
  a client construction that fails, a data directory that cannot be created, a store that
  cannot be opened (the placeholder), and an embedding service that rejects the API key
  (raised).
\<close>

theorem retrieve_failure_handling_witness:
  "search_courses_by_vector ((example_services [])\<lparr>watsonx_api_key := None\<rparr>) ''python'' None
   = Inl (value_error ''WATSONX_API_KEY environment variable is required'')
   \<and> search_courses_by_vector ((example_services [])\<lparr>watsonx_project_id := Some []\<rparr>)
        ''python'' None
     = Inl (value_error ''WATSONX_PROJECT_ID environment variable is required'')
   \<and> search_courses_by_vector
        ((example_services [])\<lparr>new_embeddings :=
           Some \<lparr>exn_type = ''ConnectionError'', exn_msg = ''connection refused''\<rparr>\<rparr>)
        ''python'' None
     = Inl \<lparr>exn_type = ''ConnectionError'', exn_msg = ''connection refused''\<rparr>
   \<and> search_courses_by_vector
        ((example_services [])\<lparr>makedirs :=
           Some \<lparr>exn_type = ''PermissionError'', exn_msg = ''Permission denied''\<rparr>\<rparr>)
        ''python'' None
     = Inl \<lparr>exn_type = ''PermissionError'', exn_msg = ''Permission denied''\<rparr>
   \<and> search_courses_by_vector
        ((example_services [])\<lparr>open_catalog :=
           Inl \<lparr>exn_type = ''OperationalError'', exn_msg = ''unable to open database file''\<rparr>\<rparr>)
        ''python'' None
     = Inr [sample_result ''python'']
   \<and> search_courses_by_vector
        ((example_services [])\<lparr>embed_query := (\<lambda>text.
           Inl \<lparr>exn_type = ''ApiRequestFailure'', exn_msg = ''Invalid API Key provided''\<rparr>)\<rparr>)
        ''python'' None
     = Inl \<lparr>exn_type = ''ApiRequestFailure'', exn_msg = ''Invalid API Key provided''\<rparr>"
proof -
  let ?ce = "\<lparr>exn_type = ''ConnectionError'', exn_msg = ''connection refused''\<rparr>"
  let ?pe = "\<lparr>exn_type = ''PermissionError'', exn_msg = ''Permission denied''\<rparr>"
  let ?db = "\<lparr>exn_type = ''OperationalError'', exn_msg = ''unable to open database file''\<rparr>"
  let ?au = "\<lparr>exn_type = ''ApiRequestFailure'', exn_msg = ''Invalid API Key provided''\<rparr>"
  let ?wk = "(example_services [])\<lparr>watsonx_api_key := None\<rparr>"
  let ?wp = "(example_services [])\<lparr>watsonx_project_id := Some []\<rparr>"
  let ?wc = "(example_services [])\<lparr>new_embeddings := Some ?ce\<rparr>"
  let ?wm = "(example_services [])\<lparr>makedirs := Some ?pe\<rparr>"
  let ?w1 = "(example_services [])\<lparr>open_catalog := Inl ?db\<rparr>"
  let ?w2 = "(example_services [])\<lparr>embed_query := (\<lambda>text. Inl ?au)\<rparr>"
  have q: "''python'' \<noteq> []" by simp
  have hk: "dict_get (watsonx_api_key ?wk) [] = []"
    by (simp add: example_services_def dict_get_def)
  have hp: "dict_get (watsonx_api_key ?wp) [] \<noteq> [] \<and> dict_get (watsonx_project_id ?wp) [] = []"
    by (simp add: example_services_def dict_get_def)
  have hc: "dict_get (watsonx_api_key ?wc) [] \<noteq> [] \<and> dict_get (watsonx_project_id ?wc) [] \<noteq> []
            \<and> new_embeddings ?wc = Some ?ce"
    by (simp add: example_services_def dict_get_def)
  have hm: "dict_get (watsonx_api_key ?wm) [] \<noteq> [] \<and> dict_get (watsonx_project_id ?wm) [] \<noteq> []
            \<and> new_embeddings ?wm = None \<and> makedirs ?wm = Some ?pe"
    by (simp add: example_services_def dict_get_def)
  have h1: "dict_get (watsonx_api_key ?w1) [] \<noteq> [] \<and> dict_get (watsonx_project_id ?w1) [] \<noteq> []
            \<and> new_embeddings ?w1 = None \<and> makedirs ?w1 = None
            \<and> search_body ?w1 ''python'' (dict_get None 3) = Inl ?db"
    by (simp add: search_body_def and_then_def example_services_def dict_get_def)
  have h2: "dict_get (watsonx_api_key ?w2) [] \<noteq> [] \<and> dict_get (watsonx_project_id ?w2) [] \<noteq> []
            \<and> new_embeddings ?w2 = None \<and> makedirs ?w2 = None
            \<and> search_body ?w2 ''python'' (dict_get None 3) = Inl ?au"
    by (simp add: search_body_def and_then_def example_services_def dict_get_def)
  have a1: "\<not> is_auth_error ?db"
    by (simp add: is_auth_error_def auth_keywords_def lower_def lower_char_def)
  have a2: "is_auth_error ?au"
    by (simp add: is_auth_error_def auth_keywords_def lower_def lower_char_def)
  have rk: "search_courses_by_vector ?wk ''python'' None
            = Inl (value_error ''WATSONX_API_KEY environment variable is required'')"
    using retrieve_failure_handling [OF q, where w = ?wk and limit = None] hk by blast
  have rp: "search_courses_by_vector ?wp ''python'' None
            = Inl (value_error ''WATSONX_PROJECT_ID environment variable is required'')"
    using retrieve_failure_handling [OF q, where w = ?wp and limit = None] hp by blast
  have rc: "search_courses_by_vector ?wc ''python'' None = Inl ?ce"
    using retrieve_failure_handling [OF q, where w = ?wc and e = ?ce and limit = None] hc by blast
  have rm: "search_courses_by_vector ?wm ''python'' None = Inl ?pe"
    using retrieve_failure_handling [OF q, where w = ?wm and e = ?pe and limit = None] hm by blast
  have r1: "search_courses_by_vector ?w1 ''python'' None = Inr [sample_result ''python'']"
    using retrieve_failure_handling [OF q, where w = ?w1 and e = ?db and limit = None] h1 a1 by presburger
  have r2: "search_courses_by_vector ?w2 ''python'' None = Inl ?au"
    using retrieve_failure_handling [OF q, where w = ?w2 and e = ?au and limit = None] h2 a2 by presburger
  from rk rp rc rm r1 r2 show ?thesis by blast
qed

text \<open>
  Claim C3 as stated fails: with \<open>WATSONX_PROJECT_ID\<close> unset, a step after input
  validation fails with a \<open>ValueError\<close> that is not authentication-kind, and it is
  raised instead of being replaced by a placeholder; likewise a \<open>PermissionError\<close> of
  \<open>os.makedirs\<close> is raised.
\<close>

theorem retrieve_configuration_failure_counterexample:
  "search_courses_by_vector ((example_services [])\<lparr>watsonx_project_id := None\<rparr>) ''python'' None
   = Inl (value_error ''WATSONX_PROJECT_ID environment variable is required'')
   \<and> \<not> is_auth_error (value_error ''WATSONX_PROJECT_ID environment variable is required'')
   \<and> search_courses_by_vector
        ((example_services [])\<lparr>makedirs :=
           Some \<lparr>exn_type = ''PermissionError'', exn_msg = ''Permission denied''\<rparr>\<rparr>)
        ''python'' None
     = Inl \<lparr>exn_type = ''PermissionError'', exn_msg = ''Permission denied''\<rparr>
   \<and> \<not> is_auth_error \<lparr>exn_type = ''PermissionError'', exn_msg = ''Permission denied''\<rparr>"
  by (simp add: search_courses_by_vector_def example_services_def dict_get_def value_error_def
      is_auth_error_def auth_keywords_def lower_def lower_char_def)

text \<open>
  Claim C7 as stated fails: over four embedded courses the call without \<open>limit\<close>
  returns three results, the call with \<open>limit = 10\<close> returns four.
\<close>

theorem retrieve_default_limit_counterexample:
  "map_sum exn_type (map sr_course_id)
     (search_courses_by_vector (example_services
        [example_row ''c1'' (Some [1]), example_row ''c2'' (Some [1]),
         example_row ''c3'' (Some [1]), example_row ''c4'' (Some [1])]) ''python'' None)
   = Inr [''c1'', ''c2'', ''c3'']
   \<and> map_sum exn_type (map sr_course_id)
     (search_courses_by_vector (example_services
        [example_row ''c1'' (Some [1]), example_row ''c2'' (Some [1]),
         example_row ''c3'' (Some [1]), example_row ''c4'' (Some [1])]) ''python'' (Some 10))
   = Inr [''c1'', ''c2'', ''c3'', ''c4'']"
  by (simp add: search_courses_by_vector_def search_body_def and_then_def example_services_def
      example_row_def score_row_def decode_list_def top_results_def to_result_def
      slice_to_def dict_get_def)

text \<open>
  When the store answers and holds no row with the seed id and an embedding, the early
  \<open>return results\<close> raises.
\<close>

lemma similar_without_seed:
  assumes "open_catalog w = Inr rows"
    and "find (\<lambda>row. row_course_id row = seed \<and> row_content_embedding row \<noteq> None) rows = None"
  shows "get_similar_courses w seed limit = Inl unbound_local_error"
  using assms by (simp add: get_similar_courses_def and_then_def)

text \<open>
  Claim C6 (seed without embedding). For a seed whose row has no embedding, and for a seed
  absent from the store, \<open>get_similar_courses\<close> fails with \<open>UnboundLocalError\<close>,
  the error of reading the unassigned \<open>results\<close>, not with a not-found error.
\<close>

theorem similar_missing_seed_raises_unbound_local:
  "get_similar_courses
     (example_services [example_row ''c1'' None, example_row ''c2'' (Some [1])]) ''c1'' None
   = Inl unbound_local_error
   \<and> get_similar_courses
     (example_services [example_row ''c1'' None, example_row ''c2'' (Some [1])]) ''absent'' None
   = Inl unbound_local_error
   \<and> exn_type unbound_local_error = ''UnboundLocalError''"
  by (simp add: get_similar_courses_def and_then_def example_services_def example_row_def
      unbound_local_error_def)

text \<open>
  Claim C7 at a concrete input: four embedded courses, three results.
\<close>

theorem retrieve_default_limit_is_three_witness:
  "\<exists>results.
     search_courses_by_vector (example_services
        [example_row ''c1'' (Some [1]), example_row ''c2'' (Some [1]),
         example_row ''c3'' (Some [1]), example_row ''c4'' (Some [1])]) ''python'' None
     = Inr results
     \<and> length results = 3 \<and> length results \<le> 3"
proof -
  let ?w = "example_services
        [example_row ''c1'' (Some [1]), example_row ''c2'' (Some [1]),
         example_row ''c3'' (Some [1]), example_row ''c4'' (Some [1])]"
  have "\<exists>results. search_courses_by_vector ?w ''python'' None = Inr results
          \<and> length results = 3"
    by (simp add: search_courses_by_vector_def search_body_def and_then_def example_services_def
        example_row_def score_row_def decode_list_def top_results_def
        slice_to_def dict_get_def)
  then obtain results where run: "search_courses_by_vector ?w ''python'' None = Inr results"
    and len: "length results = 3"
    by blast
  from retrieve_default_limit_is_three [of ?w "''python''"] run
  have "length results \<le> 3" by blast
  with run len show ?thesis by blast
qed

end
